theory Spec2Isabelle
  imports Main
begin

section \<open>Data model\<close>

text \<open>
  The development embeds the bearer-token resolution of \<^verbatim>\<open>lib/auth/index.ts\<close> together with
  the two lookups of \<^verbatim>\<open>lib/orm/index.ts\<close> it calls (\<^verbatim>\<open>fetchUser\<close>/\<^verbatim>\<open>fetchUserX\<close> and
  \<^verbatim>\<open>fetchPermission\<close>).

  Conventions.
  \<^item> JavaScript numbers that hold database integers (ids, unix times) are \<open>int\<close>; every
    arithmetic step of the code on them is an exact integer subtraction or comparison.
  \<^item> JavaScript strings are \<open>string\<close>. The only string operations of the code are a prefix
    test against the ASCII literal \<^verbatim>\<open>'Bearer '\<close>, \<^verbatim>\<open>slice\<close> by its length, emptiness and
    equality, which agree on any encoding of the text.
  \<^item> Instants are milliseconds since the epoch (what \<^verbatim>\<open>new Date()\<close> holds); one resolution
    is taken at a single instant \<open>now\<close>, read by the token query, by the caches and by
    \<^verbatim>\<open>DateTime.now()\<close> alike.
  \<^item> A thrown exception is \<open>Inl\<close> of an \<open>error\<close>; every function returns its result together
    with the state of the caches and of the log after it.
\<close>

type_synonym Permission = "string \<rightharpoonup> bool"

record IUser =
  id_u :: int
  username_u :: string
  nickname_u :: string
  groupID_u :: int
  img_u :: string
  regTime_u :: int
  sign_u :: string

record IAuth =
  userID :: int
  login :: bool
  allowNsfw :: bool
  permission :: Permission
  regTime :: int
  groupID :: int

text \<open>
  The exceptions of the code. \<open>HeaderInvalidError\<close> and \<open>TokenNotValidError\<close> are the two
  401 errors of \<^verbatim>\<open>lib/auth/index.ts\<close>; \<open>PlainError\<close> is \<^verbatim>\<open>new Error(message)\<close>;
  \<open>UndefinedUserIdError\<close> is the \<^verbatim>\<open>Error\<close> that \<^verbatim>\<open>fetchUser\<close> throws on a falsy id and
  \<open>UnexpectedNotFoundError\<close> the one \<^verbatim>\<open>fetchUserX\<close> throws, each carrying the id its
  message prints; \<open>IntvalError\<close> and \<open>PhpParseError\<close> stand for whatever \<^verbatim>\<open>intval\<close> and
  \<^verbatim>\<open>php.parse\<close> throw on an input they reject.
\<close>

datatype error =
    HeaderInvalidError string
  | TokenNotValidError
  | PlainError string
  | UndefinedUserIdError int
  | UnexpectedNotFoundError int
  | IntvalError string
  | PhpParseError string

text \<open>The value of the \<^verbatim>\<open>Authorization\<close> header: \<^verbatim>\<open>string | string[] | undefined\<close>.\<close>

datatype header = Undefined | Single string | Multiple "string list"

subsection \<open>The stores\<close>

text \<open>
  Rows of the three tables the code queries, with the columns it reads. The user id of a
  token row is a nullable string (the code tests it with \<^verbatim>\<open>!token.userID\<close> and converts it
  with \<^verbatim>\<open>intval\<close>), \<open>expiredAt\<close> is an instant, and the permission blob of a group is a
  nullable string. A table is the list of its rows in the order a query meets them, so
  \<^verbatim>\<open>findFirst\<close> and \<^verbatim>\<open>findOne\<close> are \<open>find\<close>.
\<close>

record User_row =
  id_r :: int
  nickname_r :: string
  username_r :: string
  avatar_r :: string
  groupid_r :: int
  regdate_r :: int
  sign_r :: string

record AccessToken_row =
  accessToken_t :: string
  userID_t :: "string option"
  clientID_t :: string
  expiredAt_t :: int

record Usergroup_row =
  id_g :: int
  perm_g :: "string option"

text \<open>What \<^verbatim>\<open>php.parse\<close> yields for one entry of a serialized array.\<close>

datatype php_value = PStr string | PInt int | PBool bool | PNull

text \<open>
  The environment of a call: the tables, and the two library functions whose code is not
  part of the sources, taken as parameters. \<open>intval\<close> and \<open>php_parse\<close> give \<open>None\<close> where
  the library throws; \<open>php_parse\<close> gives the parsed object as a map from its keys.
\<close>

record env =
  chiiAccessToken :: "AccessToken_row list"
  chiiUser :: "User_row list"
  chiiUsergroup :: "Usergroup_row list"
  intval :: "string \<Rightarrow> int option"
  php_parse :: "string \<Rightarrow> (string \<rightharpoonup> php_value) option"

subsection \<open>The caches\<close>

text \<open>
  Modelled from the spec: \<^verbatim>\<open>TypedCache\<close> (\<^verbatim>\<open>lib/cache.ts\<close>) and \<^verbatim>\<open>NodeCache\<close>
  (\<^verbatim>\<open>vendor/node-cache.ts\<close>) are missing from the sources. The spec gives them the contract
  of a generic key-value store with a time to live, \<^verbatim>\<open>get(key) -> value | miss\<close> and
  \<^verbatim>\<open>set(key, value, ttlSeconds)\<close>: an entry carries the instant at which it lapses and is
  returned by \<open>cache_get\<close> strictly before that instant.
\<close>

type_synonym ('k, 'v) cache = "'k \<rightharpoonup> ('v \<times> int)"

definition cache_get :: "('k, 'v) cache \<Rightarrow> int \<Rightarrow> 'k \<Rightarrow> 'v option" where
  "cache_get c now k =
     (case c k of
        None \<Rightarrow> None
      | Some (v, lapse) \<Rightarrow> if now < lapse then Some v else None)"

definition cache_set :: "('k, 'v) cache \<Rightarrow> int \<Rightarrow> 'k \<Rightarrow> 'v \<Rightarrow> int \<Rightarrow> ('k, 'v) cache" where
  "cache_set c now k v ttlSeconds = c(k \<mapsto> (v, now + ttlSeconds * 1000))"

datatype log_entry = Warn string int

record state =
  tokenAuthCache :: "(string, IUser) cache"
  userCache :: "(int, IUser) cache"
  permissionCache :: "(int, Permission) cache"
  logger :: "log_entry list"

definition stdTTL :: int where
  "stdTTL = 60 * 10"

section \<open>Permission lookup (\<^verbatim>\<open>lib/orm/index.ts\<close>)\<close>

definition defaultPermission :: Permission where
  "defaultPermission = [''ban_post'' \<mapsto> True, ''ban_visit'' \<mapsto> True]"

text \<open>Reading a flag as a condition, \<^verbatim>\<open>perms.ban_visit\<close>: an absent key is \<^verbatim>\<open>undefined\<close>, falsy.\<close>

definition flag :: "Permission \<Rightarrow> string \<Rightarrow> bool" where
  "flag p k = (p k = Some True)"

definition fetchPermission :: "env \<Rightarrow> int \<Rightarrow> state \<Rightarrow> (error + Permission) \<times> state" where
  "fetchPermission e userGroup s =
     (case find (\<lambda>g. id_g g = userGroup) (chiiUsergroup e) of
        None \<Rightarrow>
          (Inr defaultPermission,
           s\<lparr>logger := logger s @ [Warn ''can't find permission for userGroup %d'' userGroup]\<rparr>)
      | Some row \<Rightarrow>
          (case perm_g row of
             None \<Rightarrow> (Inr defaultPermission, s)
           | Some blob \<Rightarrow>
               if blob = [] then (Inr defaultPermission, s)
               else (case php_parse e blob of
                       None \<Rightarrow> (Inl (PhpParseError blob), s)
                     | Some obj \<Rightarrow>
                         (Inr (\<lambda>key. map_option (\<lambda>v. v = PStr ''1'') (obj key)), s))))"

section \<open>User lookup (\<^verbatim>\<open>lib/orm/index.ts\<close>)\<close>

definition fetchUser :: "env \<Rightarrow> int \<Rightarrow> error + IUser option" where
  "fetchUser e uid =
     (if uid = 0 then Inl (UndefinedUserIdError uid)
      else (case find (\<lambda>r. id_r r = uid) (chiiUser e) of
              None \<Rightarrow> Inr None
            | Some user \<Rightarrow>
                Inr (Some \<lparr>id_u = id_r user, username_u = username_r user,
                           nickname_u = nickname_r user, groupID_u = groupid_r user,
                           img_u = avatar_r user, regTime_u = regdate_r user,
                           sign_u = sign_r user\<rparr>)))"

definition fetchUserX :: "env \<Rightarrow> int \<Rightarrow> error + IUser" where
  "fetchUserX e uid =
     (case fetchUser e uid of
        Inl err \<Rightarrow> Inl err
      | Inr None \<Rightarrow> Inl (UnexpectedNotFoundError uid)
      | Inr (Some u) \<Rightarrow> Inr u)"

section \<open>Resolution (\<^verbatim>\<open>lib/auth/index.ts\<close>)\<close>

definition tokenPrefix :: string where
  "tokenPrefix = ''Bearer ''"

definition nsfwRestrictedUIDs :: "int set" where
  "nsfwRestrictedUIDs = {873244}"

definition emptyAuth :: IAuth where
  "emptyAuth = \<lparr>userID = 0, login = False, allowNsfw = False, permission = Map.empty,
                regTime = 0, groupID = 0\<rparr>"

text \<open>\<^verbatim>\<open>DateTime.now().toUnixInteger()\<close>: whole seconds of the instant.\<close>

definition toUnixInteger :: "int \<Rightarrow> int" where
  "toUnixInteger now = now div 1000"

definition getPermission :: "env \<Rightarrow> int \<Rightarrow> int \<Rightarrow> state \<Rightarrow> (error + Permission) \<times> state" where
  "getPermission e now userGroup s =
     (if userGroup = 0 then (Inr Map.empty, s)
      else (case cache_get (permissionCache s) now userGroup of
              Some cached \<Rightarrow> (Inr cached, s)
            | None \<Rightarrow>
                (case fetchPermission e userGroup s of
                   (Inl err, s') \<Rightarrow> (Inl err, s')
                 | (Inr p, s') \<Rightarrow>
                     (Inr p,
                      s'\<lparr>permissionCache :=
                           cache_set (permissionCache s') now userGroup p stdTTL\<rparr>))))"

definition userToAuth :: "env \<Rightarrow> int \<Rightarrow> IUser \<Rightarrow> state \<Rightarrow> (error + IAuth) \<times> state" where
  "userToAuth e now user s =
     (case getPermission e now (groupID_u user) s of
        (Inl err, s') \<Rightarrow> (Inl err, s')
      | (Inr perms, s') \<Rightarrow>
          (Inr \<lparr>userID = id_u user,
                login = True,
                allowNsfw =
                  (id_u user \<notin> nsfwRestrictedUIDs \<and>
                   \<not> flag perms ''ban_visit'' \<and>
                   \<not> flag perms ''user_ban'' \<and>
                   toUnixInteger now - regTime_u user \<ge> 60 * 60 * 24 * 90),
                permission = perms,
                regTime = regTime_u user,
                groupID = groupID_u user\<rparr>, s'))"

definition byToken :: "env \<Rightarrow> int \<Rightarrow> string \<Rightarrow> state \<Rightarrow> (error + IAuth) \<times> state" where
  "byToken e now accessToken s =
     (case cache_get (tokenAuthCache s) now accessToken of
        Some cached \<Rightarrow> userToAuth e now cached s
      | None \<Rightarrow>
          (case find (\<lambda>r. accessToken_t r = accessToken \<and> expiredAt_t r > now)
                  (chiiAccessToken e) of
             None \<Rightarrow> (Inl TokenNotValidError, s)
           | Some token \<Rightarrow>
               (case userID_t token of
                  None \<Rightarrow> (Inl (PlainError ''access token without user id''), s)
                | Some uid \<Rightarrow>
                    if uid = [] then (Inl (PlainError ''access token without user id''), s)
                    else (case intval e uid of
                            None \<Rightarrow> (Inl (IntvalError uid), s)
                          | Some n \<Rightarrow>
                              (case fetchUserX e n of
                                 Inl err \<Rightarrow> (Inl err, s)
                               | Inr u \<Rightarrow>
                                   userToAuth e now u
                                     (s\<lparr>tokenAuthCache :=
                                          cache_set (tokenAuthCache s) now accessToken u
                                            (60 * 60 * 24)\<rparr>))))))"

definition byUserID :: "env \<Rightarrow> int \<Rightarrow> int \<Rightarrow> state \<Rightarrow> (error + IAuth) \<times> state" where
  "byUserID e now uid s =
     (case cache_get (userCache s) now uid of
        Some cached \<Rightarrow> userToAuth e now cached s
      | None \<Rightarrow>
          (case fetchUserX e uid of
             Inl err \<Rightarrow> (Inl err, s)
           | Inr u \<Rightarrow>
               userToAuth e now u
                 (s\<lparr>userCache := cache_set (userCache s) now uid u (60 * 60)\<rparr>)))"

text \<open>\<^verbatim>\<open>key.startsWith(p)\<close> and \<^verbatim>\<open>key.slice(n)\<close> on strings.\<close>

definition startsWith :: "string \<Rightarrow> string \<Rightarrow> bool" where
  "startsWith k p = (take (length p) k = p)"

definition slice :: "string \<Rightarrow> nat \<Rightarrow> string" where
  "slice k n = drop n k"

text \<open>
  \<^verbatim>\<open>!key\<close> holds of \<^verbatim>\<open>undefined\<close> and of the empty string; an array, even an empty one, is
  truthy. The messages are the source's, without the double quotes of the second one.
\<close>

definition byHeader :: "env \<Rightarrow> int \<Rightarrow> header \<Rightarrow> state \<Rightarrow> (error + IAuth) \<times> state" where
  "byHeader e now key s =
     (case key of
        Undefined \<Rightarrow> (Inr emptyAuth, s)
      | Multiple ks \<Rightarrow> (Inl (HeaderInvalidError ''can't providing multiple access token''), s)
      | Single k \<Rightarrow>
          if k = [] then (Inr emptyAuth, s)
          else if \<not> startsWith k tokenPrefix then
            (Inl (HeaderInvalidError
                    ''authorization header should have Bearer ${TOKEN} format''), s)
          else if slice k (length tokenPrefix) = [] then
            (Inl (HeaderInvalidError ''authorization header missing token''), s)
          else byToken e now (slice k (length tokenPrefix)) s)"

section \<open>The invariant of an authorization context\<close>

definition auth_invariant :: "IAuth \<Rightarrow> bool" where
  "auth_invariant a =
     (\<not> login a \<longrightarrow>
        userID a = 0 \<and> permission a = Map.empty \<and> regTime a = 0 \<and> groupID a = 0 \<and>
        \<not> allowNsfw a)"

text \<open>The projection of a user row that \<open>fetchUser\<close> returns, named for the statements below.\<close>

definition toIUser :: "User_row \<Rightarrow> IUser" where
  "toIUser user = \<lparr>id_u = id_r user, username_u = username_r user,
                   nickname_u = nickname_r user, groupID_u = groupid_r user,
                   img_u = avatar_r user, regTime_u = regdate_r user, sign_u = sign_r user\<rparr>"

section \<open>A concrete deployment\<close>

text \<open>
  One token \<^verbatim>\<open>abc123\<close> of user 42, a member of group 10 (\<^verbatim>\<open>UserGroup.Normal\<close>) registered
  at unix time 1000. The token lapses at the instant 8000000000. The two library
  parameters are finite tables.
\<close>

definition scn_intval :: "string \<Rightarrow> int option" where
  "scn_intval = [''42'' \<mapsto> 42, ''873244'' \<mapsto> 873244]"

definition scn_parse :: "string \<Rightarrow> (string \<rightharpoonup> php_value) option" where
  "scn_parse =
     [''a:0:{}'' \<mapsto> Map.empty,
      ''a:2:{ban_post=1;report=0}'' \<mapsto> [''ban_post'' \<mapsto> PStr ''1'', ''report'' \<mapsto> PStr ''0'']]"

definition scn_user :: User_row where
  "scn_user = \<lparr>id_r = 42, nickname_r = ''nickname 42'', username_r = ''42'', avatar_r = [],
               groupid_r = 10, regdate_r = 1000, sign_r = []\<rparr>"

definition scn_iuser :: IUser where
  "scn_iuser = \<lparr>id_u = 42, username_u = ''42'', nickname_u = ''nickname 42'', groupID_u = 10,
                img_u = [], regTime_u = 1000, sign_u = []\<rparr>"

definition scn_token :: AccessToken_row where
  "scn_token = \<lparr>accessToken_t = ''abc123'', userID_t = Some ''42'', clientID_t = ''app'',
                expiredAt_t = 8000000000\<rparr>"

definition scn_env :: env where
  "scn_env = \<lparr>chiiAccessToken = [scn_token], chiiUser = [scn_user],
              chiiUsergroup = [\<lparr>id_g = 10, perm_g = Some ''a:0:{}''\<rparr>],
              intval = scn_intval, php_parse = scn_parse\<rparr>"

text \<open>The same deployment after the permission blob of group 10 has been edited.\<close>

definition scn_env_edited :: env where
  "scn_env_edited =
     scn_env\<lparr>chiiUsergroup := [\<lparr>id_g = 10, perm_g = Some ''a:2:{ban_post=1;report=0}''\<rparr>]\<rparr>"

definition scn_state :: state where
  "scn_state = \<lparr>tokenAuthCache = Map.empty, userCache = Map.empty,
                permissionCache = Map.empty, logger = []\<rparr>"

section \<open>Properties\<close>

subsection \<open>Header shapes\<close>

text \<open>
  C7. When the \<^verbatim>\<open>Authorization\<close> header is absent, \<open>byHeader\<close> raises nothing and returns
  exactly \<open>emptyAuth\<close>: user id 0, not logged in, no NSFW, the empty permission mapping,
  registration time 0 and group 0. The caches and the log are left as they were.
\<close>

theorem byHeader_absent:
  "byHeader e now Undefined s = (Inr emptyAuth, s) \<and>
   emptyAuth = \<lparr>userID = 0, login = False, allowNsfw = False, permission = Map.empty,
                regTime = 0, groupID = 0\<rparr>"
  by (simp add: byHeader_def emptyAuth_def)

text \<open>
  C3, as the claim states it, fails at the empty string: it is a string without the
  \<^verbatim>\<open>Bearer \<close> prefix, and \<open>byHeader\<close> answers with the anonymous context, since the guard
  \<^verbatim>\<open>!key\<close> takes it for an absent header.
\<close>

theorem byHeader_empty_string_counterexample:
  "\<not> startsWith [] tokenPrefix \<and>
   fst (byHeader scn_env 0 (Single []) scn_state) = Inr emptyAuth"
  by (simp add: byHeader_def startsWith_def tokenPrefix_def)

text \<open>
  C3, amended. An array of header values (of any length), a non-empty string that does not
  start with \<^verbatim>\<open>Bearer \<close>, and a string that starts with it and has nothing after it, all make
  \<open>byHeader\<close> fail with \<open>HeaderInvalidError\<close>, with the caches untouched; the empty
  string is treated as an absent header and gives the anonymous context.
\<close>

theorem byHeader_malformed:
  "(\<exists>m. byHeader e now (Multiple ks) s = (Inl (HeaderInvalidError m), s)) \<and>
   (k1 \<noteq> [] \<and> \<not> startsWith k1 tokenPrefix \<longrightarrow>
      (\<exists>m. byHeader e now (Single k1) s = (Inl (HeaderInvalidError m), s))) \<and>
   (startsWith k2 tokenPrefix \<and> slice k2 (length tokenPrefix) = [] \<longrightarrow>
      (\<exists>m. byHeader e now (Single k2) s = (Inl (HeaderInvalidError m), s))) \<and>
   byHeader e now (Single []) s = (Inr emptyAuth, s)"
  by (auto simp add: byHeader_def startsWith_def tokenPrefix_def)

theorem byHeader_malformed_witness:
  "(\<exists>m. byHeader scn_env 0 (Multiple [''Bearer a'', ''Bearer b'']) scn_state
          = (Inl (HeaderInvalidError m), scn_state)) \<and>
   (\<exists>m. byHeader scn_env 0 (Single ''Basic xyz'') scn_state
          = (Inl (HeaderInvalidError m), scn_state)) \<and>
   (\<exists>m. byHeader scn_env 0 (Single ''Bearer '') scn_state
          = (Inl (HeaderInvalidError m), scn_state))"
  using byHeader_malformed [of scn_env 0 "[''Bearer a'', ''Bearer b'']" scn_state
          "''Basic xyz''" "''Bearer ''"]
  by (simp add: startsWith_def slice_def tokenPrefix_def)

subsection \<open>Permission lookup\<close>

lemma find_absent:
  "k \<notin> f ` set xs \<Longrightarrow> find (\<lambda>x. f x = k) xs = None"
  by (induction xs) auto

lemma flag_defaultPermission:
  "flag defaultPermission k \<longleftrightarrow> k = ''ban_post'' \<or> k = ''ban_visit''"
  by (simp add: flag_def defaultPermission_def)

lemma fetchPermission_absent:
  "find (\<lambda>g. id_g g = gid) (chiiUsergroup e) = None \<Longrightarrow>
   fetchPermission e gid s =
     (Inr defaultPermission,
      s\<lparr>logger := logger s @ [Warn ''can't find permission for userGroup %d'' gid]\<rparr>)"
  by (simp add: fetchPermission_def)

lemma fetchPermission_unset:
  "find (\<lambda>g. id_g g = gid) (chiiUsergroup e) = Some row \<Longrightarrow>
   perm_g row = None \<or> perm_g row = Some [] \<Longrightarrow>
   fetchPermission e gid s = (Inr defaultPermission, s)"
  by (auto simp add: fetchPermission_def)

lemma fetchPermission_blob:
  "find (\<lambda>g. id_g g = gid) (chiiUsergroup e) = Some row \<Longrightarrow>
   perm_g row = Some blob \<Longrightarrow> blob \<noteq> [] \<Longrightarrow>
   fetchPermission e gid s =
     (case php_parse e blob of
        None \<Rightarrow> (Inl (PhpParseError blob), s)
      | Some obj \<Rightarrow> (Inr (\<lambda>key. map_option (\<lambda>v. v = PStr ''1'') (obj key)), s))"
  by (simp add: fetchPermission_def)

text \<open>
  C5. For a group id without a row in the user-group table, \<open>fetchPermission\<close> raises
  nothing, appends one warning to the log and returns the default record; for a row whose
  blob is unset or empty it returns the default record and logs nothing. The default record
  is \<open>{ban_post: true, ban_visit: true}\<close>: these two flags read true, every other flag reads
  false. For a row with a non-empty blob that \<^verbatim>\<open>php.parse\<close> turns into an object, the result
  has the keys of that object, and a flag reads true exactly when its stored value is the
  string \<^verbatim>\<open>"1"\<close>.
\<close>

theorem fetchPermission_spec:
  "(gid \<notin> id_g ` set (chiiUsergroup e) \<longrightarrow>
      fetchPermission e gid s =
        (Inr defaultPermission,
         s\<lparr>logger := logger s @ [Warn ''can't find permission for userGroup %d'' gid]\<rparr>)) \<and>
   (find (\<lambda>g. id_g g = gid) (chiiUsergroup e) = Some row \<and>
    (perm_g row = None \<or> perm_g row = Some []) \<longrightarrow>
      fetchPermission e gid s = (Inr defaultPermission, s)) \<and>
   defaultPermission = [''ban_post'' \<mapsto> True, ''ban_visit'' \<mapsto> True] \<and>
   (\<forall>k. flag defaultPermission k \<longleftrightarrow> k = ''ban_post'' \<or> k = ''ban_visit'') \<and>
   (find (\<lambda>g. id_g g = gid) (chiiUsergroup e) = Some row \<and>
    perm_g row = Some blob \<and> blob \<noteq> [] \<and> php_parse e blob = Some obj \<longrightarrow>
      (\<exists>p. fetchPermission e gid s = (Inr p, s) \<and> dom p = dom obj \<and>
           (\<forall>k. flag p k \<longleftrightarrow> obj k = Some (PStr ''1''))))"
proof (intro conjI impI allI)
  assume "gid \<notin> id_g ` set (chiiUsergroup e)"
  then have "find (\<lambda>g. id_g g = gid) (chiiUsergroup e) = None"
    by (rule find_absent)
  then show "fetchPermission e gid s =
        (Inr defaultPermission,
         s\<lparr>logger := logger s @ [Warn ''can't find permission for userGroup %d'' gid]\<rparr>)"
    by (rule fetchPermission_absent)
next
  assume "find (\<lambda>g. id_g g = gid) (chiiUsergroup e) = Some row \<and>
    (perm_g row = None \<or> perm_g row = Some [])"
  then show "fetchPermission e gid s = (Inr defaultPermission, s)"
    using fetchPermission_unset by blast
next
  show "defaultPermission = [''ban_post'' \<mapsto> True, ''ban_visit'' \<mapsto> True]"
    by (simp add: defaultPermission_def)
next
  fix k show "flag defaultPermission k \<longleftrightarrow> k = ''ban_post'' \<or> k = ''ban_visit''"
    by (rule flag_defaultPermission)
next
  assume a: "find (\<lambda>g. id_g g = gid) (chiiUsergroup e) = Some row \<and>
    perm_g row = Some blob \<and> blob \<noteq> [] \<and> php_parse e blob = Some obj"
  let ?p = "\<lambda>key. map_option (\<lambda>v. v = PStr ''1'') (obj key)"
  have "fetchPermission e gid s = (Inr ?p, s)"
    using a fetchPermission_blob [of gid e row blob s] by simp
  moreover have "dom ?p = dom obj"
    by (auto simp add: dom_def)
  moreover have "\<forall>k. flag ?p k \<longleftrightarrow> obj k = Some (PStr ''1'')"
    by (auto simp add: flag_def)
  ultimately show "\<exists>p. fetchPermission e gid s = (Inr p, s) \<and> dom p = dom obj \<and>
           (\<forall>k. flag p k \<longleftrightarrow> obj k = Some (PStr ''1''))"
    by blast
qed

theorem fetchPermission_spec_witness:
  "fetchPermission scn_env 11 scn_state =
     (Inr defaultPermission,
      scn_state\<lparr>logger := [Warn ''can't find permission for userGroup %d'' 11]\<rparr>) \<and>
   fetchPermission (scn_env\<lparr>chiiUsergroup := [\<lparr>id_g = 10, perm_g = Some []\<rparr>]\<rparr>) 10 scn_state =
     (Inr defaultPermission, scn_state) \<and>
   (\<exists>p. fetchPermission
          (scn_env\<lparr>chiiUsergroup := [\<lparr>id_g = 10, perm_g = Some ''a:2:{ban_post=1;report=0}''\<rparr>]\<rparr>)
          10 scn_state = (Inr p, scn_state) \<and>
        flag p ''ban_post'' \<and> \<not> flag p ''report'' \<and> \<not> flag p ''ban_visit'' \<and>
        dom p = {''ban_post'', ''report''})"
proof -
  let ?e1 = "scn_env\<lparr>chiiUsergroup := [\<lparr>id_g = 10, perm_g = Some []\<rparr>]\<rparr>"
  let ?e2 = "scn_env\<lparr>chiiUsergroup := [\<lparr>id_g = 10, perm_g = Some ''a:2:{ban_post=1;report=0}''\<rparr>]\<rparr>"
  let ?obj = "[''ban_post'' \<mapsto> PStr ''1'', ''report'' \<mapsto> PStr ''0'']"
  have 1: "fetchPermission scn_env 11 scn_state =
     (Inr defaultPermission,
      scn_state\<lparr>logger := [Warn ''can't find permission for userGroup %d'' 11]\<rparr>)"
    using fetchPermission_spec [of 11 scn_env scn_state]
    by (simp add: scn_env_def scn_state_def)
  have 2: "fetchPermission ?e1 10 scn_state = (Inr defaultPermission, scn_state)"
    using fetchPermission_spec [of 10 ?e1 scn_state "\<lparr>id_g = 10, perm_g = Some []\<rparr>"]
    by (simp add: scn_env_def)
  have "\<exists>p. fetchPermission ?e2 10 scn_state = (Inr p, scn_state) \<and> dom p = dom ?obj \<and>
           (\<forall>k. flag p k \<longleftrightarrow> ?obj k = Some (PStr ''1''))"
    using fetchPermission_spec [of 10 ?e2 scn_state
        "\<lparr>id_g = 10, perm_g = Some ''a:2:{ban_post=1;report=0}''\<rparr>"
        "''a:2:{ban_post=1;report=0}''" ?obj]
    by (simp add: scn_env_def scn_parse_def)
  then obtain p where p: "fetchPermission ?e2 10 scn_state = (Inr p, scn_state)"
      "dom p = dom ?obj" "\<forall>k. flag p k \<longleftrightarrow> ?obj k = Some (PStr ''1'')"
    by blast
  have "flag p ''ban_post'' \<and> \<not> flag p ''report'' \<and> \<not> flag p ''ban_visit''"
    using p(3) by simp
  moreover have "dom p = {''ban_post'', ''report''}"
    using p(2) by auto
  ultimately show ?thesis
    using 1 2 p(1) by blast
qed

subsection \<open>Building the context\<close>

lemma userToAuth_of_getPermission:
  "getPermission e now (groupID_u user) s = (Inr perms, s') \<Longrightarrow>
   userToAuth e now user s =
     (Inr \<lparr>userID = id_u user, login = True,
           allowNsfw =
             (id_u user \<notin> nsfwRestrictedUIDs \<and> \<not> flag perms ''ban_visit'' \<and>
              \<not> flag perms ''user_ban'' \<and>
              toUnixInteger now - regTime_u user \<ge> 60 * 60 * 24 * 90),
           permission = perms, regTime = regTime_u user, groupID = groupID_u user\<rparr>, s')"
  by (simp add: userToAuth_def)

lemma userToAuth_failure:
  "getPermission e now (groupID_u user) s = (Inl err, s') \<Longrightarrow>
   userToAuth e now user s = (Inl err, s')"
  by (simp add: userToAuth_def)

lemma userToAuth_Inr:
  assumes "userToAuth e now user s = (Inr a, s')"
  shows "getPermission e now (groupID_u user) s = (Inr (permission a), s') \<and>
         userID a = id_u user \<and> login a \<and> regTime a = regTime_u user \<and>
         groupID a = groupID_u user"
proof (cases "getPermission e now (groupID_u user) s")
  case (Pair r t)
  show ?thesis
  proof (cases r)
    case (Inl err)
    with Pair assms show ?thesis by (simp add: userToAuth_failure)
  next
    case (Inr perms)
    with Pair assms show ?thesis by (auto simp add: userToAuth_of_getPermission)
  qed
qed

text \<open>
  C1. Whenever the permission lookup for the user's group gives a record \<open>perms\<close>,
  \<open>userToAuth\<close> builds a logged-in context carrying \<open>perms\<close> whose \<open>allowNsfw\<close> is true
  if and only if the four gates hold together: the user id is outside the deny-list (the
  set holding 873244), \<open>ban_visit\<close> is not true, \<open>user_ban\<close> is not true, and the whole
  seconds of now minus the registration time are at least \<open>60*60*24*90\<close>. At exactly 90
  days, with the other gates passing, \<open>allowNsfw\<close> is true; one second earlier it is
  false; for a user of the deny-list it is false whatever the other gates say.
\<close>

theorem userToAuth_allowNsfw:
  assumes "getPermission e now (groupID_u user) s = (Inr perms, s')"
  shows "\<exists>a. userToAuth e now user s = (Inr a, s') \<and> login a \<and> permission a = perms \<and>
     (allowNsfw a \<longleftrightarrow>
        id_u user \<notin> nsfwRestrictedUIDs \<and> perms ''ban_visit'' \<noteq> Some True \<and>
        perms ''user_ban'' \<noteq> Some True \<and>
        toUnixInteger now - regTime_u user \<ge> 60 * 60 * 24 * 90) \<and>
     (id_u user \<notin> nsfwRestrictedUIDs \<and> perms ''ban_visit'' \<noteq> Some True \<and>
      perms ''user_ban'' \<noteq> Some True \<and>
      toUnixInteger now - regTime_u user = 60 * 60 * 24 * 90 \<longrightarrow> allowNsfw a) \<and>
     (toUnixInteger now - regTime_u user = 60 * 60 * 24 * 90 - 1 \<longrightarrow> \<not> allowNsfw a) \<and>
     (id_u user \<in> nsfwRestrictedUIDs \<longrightarrow> \<not> allowNsfw a) \<and>
     nsfwRestrictedUIDs = {873244}"
  using userToAuth_of_getPermission [OF assms]
  by (simp add: flag_def nsfwRestrictedUIDs_def)

lemma scn_getPermission:
  "getPermission scn_env 7777000000 10 scn_state =
     (Inr Map.empty,
      scn_state\<lparr>permissionCache := [10 \<mapsto> (Map.empty, 7777600000)]\<rparr>)"
  by (simp add: getPermission_def cache_get_def cache_set_def fetchPermission_def
      scn_env_def scn_state_def scn_parse_def stdTTL_def)

theorem userToAuth_allowNsfw_witness:
  "toUnixInteger 7777000000 - regTime_u scn_iuser = 60 * 60 * 24 * 90 \<and>
   (\<exists>a s'. userToAuth scn_env 7777000000 scn_iuser scn_state = (Inr a, s') \<and>
            allowNsfw a) \<and>
   (\<exists>a s'. userToAuth scn_env 7776999999 scn_iuser
              (scn_state\<lparr>permissionCache := [10 \<mapsto> (Map.empty, 7777600000)]\<rparr>) = (Inr a, s') \<and>
            \<not> allowNsfw a) \<and>
   (\<exists>a s'. userToAuth scn_env 7777000000 (scn_iuser\<lparr>id_u := 873244\<rparr>) scn_state = (Inr a, s') \<and>
            \<not> allowNsfw a)"
proof -
  let ?s1 = "scn_state\<lparr>permissionCache := [10 \<mapsto> (Map.empty, 7777600000)]\<rparr>"
  have t: "toUnixInteger 7777000000 - regTime_u scn_iuser = 60 * 60 * 24 * 90"
    by (simp add: toUnixInteger_def scn_iuser_def)
  have g: "getPermission scn_env 7777000000 (groupID_u scn_iuser) scn_state = (Inr Map.empty, ?s1)"
    using scn_getPermission by (simp add: scn_iuser_def)
  have g2: "getPermission scn_env 7776999999 (groupID_u scn_iuser) ?s1 = (Inr Map.empty, ?s1)"
    by (simp add: getPermission_def cache_get_def scn_iuser_def scn_state_def)
  have g3: "getPermission scn_env 7777000000 (groupID_u (scn_iuser\<lparr>id_u := 873244\<rparr>)) scn_state
              = (Inr Map.empty, ?s1)"
    using scn_getPermission by (simp add: scn_iuser_def)
  have 1: "\<exists>a s'. userToAuth scn_env 7777000000 scn_iuser scn_state = (Inr a, s') \<and> allowNsfw a"
    using userToAuth_allowNsfw [OF g] t
    by (auto simp add: scn_iuser_def nsfwRestrictedUIDs_def)
  have 2: "\<exists>a s'. userToAuth scn_env 7776999999 scn_iuser ?s1 = (Inr a, s') \<and> \<not> allowNsfw a"
    using userToAuth_allowNsfw [OF g2]
    by (auto simp add: scn_iuser_def toUnixInteger_def)
  have 3: "\<exists>a s'. userToAuth scn_env 7777000000 (scn_iuser\<lparr>id_u := 873244\<rparr>) scn_state
              = (Inr a, s') \<and> \<not> allowNsfw a"
    using userToAuth_allowNsfw [OF g3]
    by (auto simp add: scn_iuser_def)
  from t 1 2 3 show ?thesis by blast
qed

lemma getPermission_group_zero:
  "getPermission e now 0 s = (Inr Map.empty, s)"
  by (simp add: getPermission_def)

text \<open>
  C10. For group id 0 \<open>getPermission\<close> returns the empty mapping and the state it was given,
  whatever the user-group table, the permission cache and the clock hold: neither is
  consulted, nothing is logged. So a logged-in user of group 0 gets the empty permission
  mapping and not the default record of a group without a row, and \<open>allowNsfw\<close> is decided
  by the deny-list and the age of the account alone: it is true for an account of at least
  90 days that is not deny-listed. (Group ids are integers here, so 0 is the one falsy
  value.)
\<close>

theorem getPermission_group_zero_bypass:
  "getPermission e now 0 s = (Inr Map.empty, s) \<and>
   (groupID_u user = 0 \<longrightarrow>
      userToAuth e now user s =
        (Inr \<lparr>userID = id_u user, login = True,
              allowNsfw =
                (id_u user \<notin> nsfwRestrictedUIDs \<and>
                 toUnixInteger now - regTime_u user \<ge> 60 * 60 * 24 * 90),
              permission = Map.empty, regTime = regTime_u user, groupID = 0\<rparr>, s)) \<and>
   (groupID_u user = 0 \<and> id_u user \<notin> nsfwRestrictedUIDs \<and>
    toUnixInteger now - regTime_u user \<ge> 60 * 60 * 24 * 90 \<longrightarrow>
      (\<exists>a. userToAuth e now user s = (Inr a, s) \<and> allowNsfw a \<and>
           permission a \<noteq> defaultPermission))"
proof -
  have z: "groupID_u user = 0 \<Longrightarrow>
      userToAuth e now user s =
        (Inr \<lparr>userID = id_u user, login = True,
              allowNsfw =
                (id_u user \<notin> nsfwRestrictedUIDs \<and>
                 toUnixInteger now - regTime_u user \<ge> 60 * 60 * 24 * 90),
              permission = Map.empty, regTime = regTime_u user, groupID = 0\<rparr>, s)"
    using userToAuth_of_getPermission [of e now user s Map.empty s]
    by (simp add: getPermission_group_zero flag_def)
  have d: "Map.empty \<noteq> defaultPermission"
    unfolding defaultPermission_def by (metis map_upd_nonempty)
  show ?thesis
    using z d by (simp add: getPermission_group_zero)
qed

theorem getPermission_group_zero_bypass_witness:
  "userToAuth (scn_env\<lparr>chiiUsergroup := []\<rparr>) 7777000000 (scn_iuser\<lparr>groupID_u := 0\<rparr>) scn_state =
     (Inr \<lparr>userID = 42, login = True, allowNsfw = True, permission = Map.empty,
           regTime = 1000, groupID = 0\<rparr>, scn_state)"
  using getPermission_group_zero_bypass
          [of "scn_env\<lparr>chiiUsergroup := []\<rparr>" 7777000000 scn_state "scn_iuser\<lparr>groupID_u := 0\<rparr>"]
  by (simp add: scn_iuser_def nsfwRestrictedUIDs_def toUnixInteger_def)

subsection \<open>The permission of a context\<close>

text \<open>
  C8, as the claim states it, fails for a logged-in user whose group has no row: with an
  empty user-group table, user 42 of group 10 resolves to a context whose permission is
  the default record \<open>{ban_post: true, ban_visit: true}\<close>, which is not the empty mapping.
\<close>

theorem permission_missing_row_counterexample:
  "chiiUsergroup (scn_env\<lparr>chiiUsergroup := []\<rparr>) = [] \<and>
   map_sum id permission
     (fst (byToken (scn_env\<lparr>chiiUsergroup := []\<rparr>) 7777000000 ''abc123'' scn_state))
     = Inr [''ban_post'' \<mapsto> True, ''ban_visit'' \<mapsto> True] \<and>
   [''ban_post'' \<mapsto> True, ''ban_visit'' \<mapsto> True] \<noteq> (Map.empty :: Permission)"
  by (simp add: byToken_def userToAuth_def getPermission_def fetchPermission_def
      fetchUserX_def fetchUser_def cache_get_def cache_set_def defaultPermission_def
      scn_env_def scn_state_def scn_token_def scn_user_def scn_intval_def)

text \<open>
  C8, amended. The permission of the anonymous context is the empty mapping. For a
  logged-in user whose group id is not 0, has no row in the user-group table and no live
  entry in the permission cache, the context is built all the same and its permission is
  the default record \<open>{ban_post: true, ban_visit: true}\<close>, under which \<open>allowNsfw\<close> is
  false.
\<close>

theorem permission_anonymous_or_missing_row:
  "permission emptyAuth = Map.empty \<and>
   (groupID_u user \<noteq> 0 \<and> groupID_u user \<notin> id_g ` set (chiiUsergroup e) \<and>
    cache_get (permissionCache s) now (groupID_u user) = None \<longrightarrow>
      (\<exists>a s'. userToAuth e now user s = (Inr a, s') \<and> login a \<and>
              permission a = [''ban_post'' \<mapsto> True, ''ban_visit'' \<mapsto> True] \<and>
              \<not> allowNsfw a))"
proof (intro conjI impI)
  show "permission emptyAuth = Map.empty"
    by (simp add: emptyAuth_def)
next
  assume a: "groupID_u user \<noteq> 0 \<and> groupID_u user \<notin> id_g ` set (chiiUsergroup e) \<and>
    cache_get (permissionCache s) now (groupID_u user) = None"
  then have "find (\<lambda>g. id_g g = groupID_u user) (chiiUsergroup e) = None"
    by (simp add: find_absent)
  then have "\<exists>s'. getPermission e now (groupID_u user) s = (Inr defaultPermission, s')"
    using a by (simp add: getPermission_def fetchPermission_absent)
  then obtain s' where "getPermission e now (groupID_u user) s = (Inr defaultPermission, s')"
    by blast
  from userToAuth_of_getPermission [OF this]
  show "\<exists>a s'. userToAuth e now user s = (Inr a, s') \<and> login a \<and>
              permission a = [''ban_post'' \<mapsto> True, ''ban_visit'' \<mapsto> True] \<and>
              \<not> allowNsfw a"
    by (simp add: flag_defaultPermission) (simp add: defaultPermission_def)
qed

theorem permission_anonymous_or_missing_row_witness:
  "\<exists>a s'. userToAuth (scn_env\<lparr>chiiUsergroup := []\<rparr>) 7777000000 scn_iuser scn_state = (Inr a, s') \<and>
          login a \<and> permission a = [''ban_post'' \<mapsto> True, ''ban_visit'' \<mapsto> True] \<and>
          \<not> allowNsfw a"
  using permission_anonymous_or_missing_row
          [of scn_iuser "scn_env\<lparr>chiiUsergroup := []\<rparr>" scn_state 7777000000]
  by (simp add: scn_iuser_def scn_env_def scn_state_def cache_get_def)

subsection \<open>The invariant\<close>

lemma byToken_login:
  "byToken e now t s = (Inr a, s') \<Longrightarrow> login a"
  unfolding byToken_def
  by (auto split: option.splits sum.splits if_splits dest: userToAuth_Inr)

lemma byUserID_login:
  "byUserID e now uid s = (Inr a, s') \<Longrightarrow> login a"
  unfolding byUserID_def
  by (auto split: option.splits sum.splits dest: userToAuth_Inr)

lemma byHeader_login_or_empty:
  "byHeader e now key s = (Inr a, s') \<Longrightarrow> login a \<or> a = emptyAuth"
  unfolding byHeader_def
  by (auto split: header.splits if_splits dest: byToken_login)

text \<open>
  C6. Every context that \<open>byHeader\<close>, \<open>byToken\<close> or \<open>byUserID\<close> returns, and \<open>emptyAuth\<close>
  itself, satisfies the invariant: when \<open>login\<close> is false, the user id, the registration
  time and the group id are 0, the permission is the empty mapping and \<open>allowNsfw\<close> is
  false. Indeed a returned context is either logged in or exactly \<open>emptyAuth\<close>.
\<close>

theorem auth_invariant_holds:
  "(fst (byHeader e now key s) = Inr a \<longrightarrow> auth_invariant a \<and> (login a \<or> a = emptyAuth)) \<and>
   (fst (byToken e now t s) = Inr a \<longrightarrow> auth_invariant a \<and> login a) \<and>
   (fst (byUserID e now uid s) = Inr a \<longrightarrow> auth_invariant a \<and> login a) \<and>
   auth_invariant emptyAuth"
proof (intro conjI impI)
  have emp: "auth_invariant emptyAuth"
    by (simp add: auth_invariant_def emptyAuth_def)
  show "auth_invariant emptyAuth" by (rule emp)
  {
    assume "fst (byHeader e now key s) = Inr a"
    then have "byHeader e now key s = (Inr a, snd (byHeader e now key s))"
      by (metis prod.collapse)
    then show h: "login a \<or> a = emptyAuth"
      by (rule byHeader_login_or_empty)
    then show "auth_invariant a"
      using emp by (auto simp add: auth_invariant_def)
  }
  {
    assume "fst (byToken e now t s) = Inr a"
    then have "byToken e now t s = (Inr a, snd (byToken e now t s))"
      by (metis prod.collapse)
    then show "login a"
      by (rule byToken_login)
    then show "auth_invariant a"
      by (simp add: auth_invariant_def)
  }
  {
    assume "fst (byUserID e now uid s) = Inr a"
    then have "byUserID e now uid s = (Inr a, snd (byUserID e now uid s))"
      by (metis prod.collapse)
    then show "login a"
      by (rule byUserID_login)
    then show "auth_invariant a"
      by (simp add: auth_invariant_def)
  }
qed

theorem auth_invariant_holds_witness:
  "fst (byHeader scn_env 0 Undefined scn_state) = Inr emptyAuth \<and>
   \<not> login emptyAuth \<and> userID emptyAuth = 0 \<and> permission emptyAuth = Map.empty \<and>
   regTime emptyAuth = 0 \<and> groupID emptyAuth = 0 \<and> \<not> allowNsfw emptyAuth"
proof -
  have r: "fst (byHeader scn_env 0 Undefined scn_state) = Inr emptyAuth"
    by (simp add: byHeader_def)
  have n: "\<not> login emptyAuth"
    by (simp add: emptyAuth_def)
  from auth_invariant_holds [of scn_env 0 Undefined scn_state emptyAuth] r
  have "auth_invariant emptyAuth" by blast
  with n r show ?thesis
    by (simp add: auth_invariant_def)
qed

subsection \<open>Token lookup\<close>

lemma byToken_cached:
  "cache_get (tokenAuthCache s) now t = Some c \<Longrightarrow>
   byToken e now t s = userToAuth e now c s"
  by (simp add: byToken_def)

lemma byToken_no_row:
  "cache_get (tokenAuthCache s) now t = None \<Longrightarrow>
   find (\<lambda>r. accessToken_t r = t \<and> expiredAt_t r > now) (chiiAccessToken e) = None \<Longrightarrow>
   byToken e now t s = (Inl TokenNotValidError, s)"
  by (simp add: byToken_def)

lemma find_Some_holds:
  "find P xs = Some x \<Longrightarrow> P x \<and> x \<in> set xs"
  by (induction xs) (auto split: if_splits)

lemma fetchUserX_found:
  assumes "uid \<noteq> 0" and "find (\<lambda>r. id_r r = uid) (chiiUser e) = Some user"
  shows "fetchUserX e uid = Inr (toIUser user) \<and> id_u (toIUser user) = uid"
proof -
  have "id_r user = uid"
    using find_Some_holds [OF assms(2)] by simp
  then show ?thesis
    using assms by (simp add: fetchUserX_def fetchUser_def toIUser_def)
qed

lemma byToken_row:
  "cache_get (tokenAuthCache s) now t = None \<Longrightarrow>
   find (\<lambda>r. accessToken_t r = t \<and> expiredAt_t r > now) (chiiAccessToken e) = Some row \<Longrightarrow>
   userID_t row = Some us \<Longrightarrow> us \<noteq> [] \<Longrightarrow> intval e us = Some uid \<Longrightarrow>
   fetchUserX e uid = Inr u \<Longrightarrow>
   byToken e now t s =
     userToAuth e now u
       (s\<lparr>tokenAuthCache := cache_set (tokenAuthCache s) now t u (60 * 60 * 24)\<rparr>)"
  by (simp add: byToken_def)

text \<open>
  C4, as the claim states it, fails for a token that is still in the token cache. The token
  \<^verbatim>\<open>abc123\<close> lapses at the instant 8000000000; a first resolution one second before caches
  its user for 24 hours, and a second resolution one second after the lapse, when no row of
  the store is live any more, is served from the cache and returns a context.
\<close>

theorem byToken_expired_cached_counterexample:
  "chiiAccessToken scn_env = [scn_token] \<and> expiredAt_t scn_token = 8000000000 \<and>
   \<not> expiredAt_t scn_token > 8000001000 \<and>
   fst (byToken scn_env 8000001000 ''abc123''
          (snd (byToken scn_env 7999999000 ''abc123'' scn_state))) =
     Inr \<lparr>userID = 42, login = True, allowNsfw = True, permission = Map.empty,
          regTime = 1000, groupID = 10\<rparr>"
  by (simp add: byToken_def userToAuth_def getPermission_def fetchPermission_def
      fetchUserX_def fetchUser_def cache_get_def cache_set_def flag_def toUnixInteger_def
      nsfwRestrictedUIDs_def stdTTL_def
      scn_env_def scn_state_def scn_token_def scn_user_def scn_intval_def scn_parse_def)

text \<open>
  C4, amended. For every token string without a live entry in the token cache, if no row of
  the token store has that access token and an \<open>expiredAt\<close> strictly greater than now (the
  row is missing, or it has expired, were it one second ago), \<open>byToken\<close> fails with
  \<open>TokenNotValidError\<close> and leaves the caches as they were.
\<close>

theorem byToken_missing_or_expired:
  assumes "cache_get (tokenAuthCache s) now t = None"
    and "\<forall>r \<in> set (chiiAccessToken e). accessToken_t r = t \<longrightarrow> \<not> expiredAt_t r > now"
  shows "byToken e now t s = (Inl TokenNotValidError, s)"
proof -
  have "find (\<lambda>r. accessToken_t r = t \<and> expiredAt_t r > now) (chiiAccessToken e) = None"
    using assms(2) by (auto simp add: find_None_iff)
  with assms(1) show ?thesis
    by (rule byToken_no_row)
qed

theorem byToken_missing_or_expired_witness:
  "expiredAt_t scn_token = 8000001000 - 1000 \<and>
   byToken scn_env 8000001000 ''abc123'' scn_state = (Inl TokenNotValidError, scn_state) \<and>
   byToken scn_env 0 ''unknown'' scn_state = (Inl TokenNotValidError, scn_state)"
  using byToken_missing_or_expired [of scn_state 8000001000 "''abc123''" scn_env]
    byToken_missing_or_expired [of scn_state 0 "''unknown''" scn_env]
  by (simp add: cache_get_def scn_state_def scn_env_def scn_token_def)

subsection \<open>Resolving a bearer header\<close>

lemma byHeader_bearer:
  "t \<noteq> [] \<Longrightarrow> byHeader e now (Single (tokenPrefix @ t)) s = byToken e now t s"
  by (simp add: byHeader_def startsWith_def slice_def tokenPrefix_def)

lemma getPermission_tokenAuthCache:
  "getPermission e now g (s\<lparr>tokenAuthCache := c\<rparr>) =
     (fst (getPermission e now g s), (snd (getPermission e now g s))\<lparr>tokenAuthCache := c\<rparr>)"
  by (simp add: getPermission_def fetchPermission_def
      split: option.splits sum.splits prod.splits)

text \<open>
  C2, as the claim states it, fails when the user of the token row is not in the user table:
  the row of \<^verbatim>\<open>abc123\<close> is live and carries user id 42, and with an empty user table
  \<open>byHeader\<close> fails with \<open>UnexpectedNotFoundError\<close> instead of returning a context.
\<close>

theorem byHeader_token_user_missing_counterexample:
  "chiiAccessToken (scn_env\<lparr>chiiUser := []\<rparr>) = [scn_token] \<and>
   accessToken_t scn_token = ''abc123'' \<and> expiredAt_t scn_token > 7777000000 \<and>
   userID_t scn_token = Some ''42'' \<and> intval (scn_env\<lparr>chiiUser := []\<rparr>) ''42'' = Some 42 \<and>
   byHeader (scn_env\<lparr>chiiUser := []\<rparr>) 7777000000 (Single ''Bearer abc123'') scn_state =
     (Inl (UnexpectedNotFoundError 42), scn_state)"
  by (simp add: byHeader_def startsWith_def slice_def tokenPrefix_def byToken_def
      fetchUserX_def fetchUser_def cache_get_def
      scn_env_def scn_state_def scn_token_def scn_intval_def)

text \<open>
  C2, amended. Let \<open>t\<close> be a non-empty token. If the token cache has no live entry for \<open>t\<close>,
  the first row of the token store with access token \<open>t\<close> and \<open>expiredAt\<close> strictly greater
  than now carries a non-empty user id that \<open>intval\<close> reads as \<open>u\<close>, \<open>u\<close> is not 0 and is
  the id of a row of the user table, and the permission lookup for that user's group
  succeeds, then resolving the header \<^verbatim>\<open>Bearer \<close> followed by \<open>t\<close> returns a context with
  \<open>userID = u\<close> and \<open>login = True\<close>. If the token cache has a live entry for \<open>t\<close>, the
  context is built from the cached user instead, whatever the token store holds.
\<close>

theorem byHeader_valid_token:
  "(t \<noteq> [] \<and> cache_get (tokenAuthCache s) now t = None \<and>
    find (\<lambda>r. accessToken_t r = t \<and> expiredAt_t r > now) (chiiAccessToken e) = Some row \<and>
    userID_t row = Some us \<and> us \<noteq> [] \<and> intval e us = Some u \<and> u \<noteq> 0 \<and>
    find (\<lambda>r. id_r r = u) (chiiUser e) = Some user \<and>
    fst (getPermission e now (groupid_r user) s) = Inr perms \<longrightarrow>
      (\<exists>a s'. byHeader e now (Single (tokenPrefix @ t)) s = (Inr a, s') \<and>
              userID a = u \<and> login a)) \<and>
   (t \<noteq> [] \<and> cache_get (tokenAuthCache s) now t = Some c \<and>
    fst (getPermission e now (groupID_u c) s) = Inr perms \<longrightarrow>
      (\<exists>a s'. byHeader e now (Single (tokenPrefix @ t)) s = (Inr a, s') \<and>
              userID a = id_u c \<and> login a))"
proof (intro conjI impI)
  assume a: "t \<noteq> [] \<and> cache_get (tokenAuthCache s) now t = None \<and>
    find (\<lambda>r. accessToken_t r = t \<and> expiredAt_t r > now) (chiiAccessToken e) = Some row \<and>
    userID_t row = Some us \<and> us \<noteq> [] \<and> intval e us = Some u \<and> u \<noteq> 0 \<and>
    find (\<lambda>r. id_r r = u) (chiiUser e) = Some user \<and>
    fst (getPermission e now (groupid_r user) s) = Inr perms"
  let ?s1 = "s\<lparr>tokenAuthCache := cache_set (tokenAuthCache s) now t (toIUser user) (60 * 60 * 24)\<rparr>"
  have fu: "fetchUserX e u = Inr (toIUser user)" and idu: "id_u (toIUser user) = u"
    using a fetchUserX_found [of u e user] by simp_all
  have bt: "byToken e now t s = userToAuth e now (toIUser user) ?s1"
    using a fu byToken_row [of s now t e row us u "toIUser user"] by simp
  have "groupID_u (toIUser user) = groupid_r user"
    by (simp add: toIUser_def)
  then have "fst (getPermission e now (groupID_u (toIUser user)) ?s1) = Inr perms"
    using a by (simp add: getPermission_tokenAuthCache)
  then have "getPermission e now (groupID_u (toIUser user)) ?s1 =
      (Inr perms, snd (getPermission e now (groupID_u (toIUser user)) ?s1))"
    by (metis prod.collapse)
  from userToAuth_of_getPermission [OF this]
  show "\<exists>a s'. byHeader e now (Single (tokenPrefix @ t)) s = (Inr a, s') \<and>
              userID a = u \<and> login a"
    using a bt idu by (simp add: byHeader_bearer)
next
  assume a: "t \<noteq> [] \<and> cache_get (tokenAuthCache s) now t = Some c \<and>
    fst (getPermission e now (groupID_u c) s) = Inr perms"
  then have "getPermission e now (groupID_u c) s =
      (Inr perms, snd (getPermission e now (groupID_u c) s))"
    by (metis prod.collapse)
  from userToAuth_of_getPermission [OF this]
  show "\<exists>a s'. byHeader e now (Single (tokenPrefix @ t)) s = (Inr a, s') \<and>
              userID a = id_u c \<and> login a"
    using a by (simp add: byHeader_bearer byToken_cached)
qed

theorem byHeader_valid_token_witness:
  "(\<exists>a s'. byHeader scn_env 7777000000 (Single ''Bearer abc123'') scn_state = (Inr a, s') \<and>
           userID a = 42 \<and> login a) \<and>
   (\<exists>a s'. byHeader scn_env 8000001000 (Single ''Bearer abc123'')
             (scn_state\<lparr>tokenAuthCache := [''abc123'' \<mapsto> (scn_iuser, 8086399000)]\<rparr>) = (Inr a, s') \<and>
           userID a = 42 \<and> login a)"
proof -
  let ?s1 = "scn_state\<lparr>tokenAuthCache := [''abc123'' \<mapsto> (scn_iuser, 8086399000)]\<rparr>"
  have g: "fst (getPermission scn_env 7777000000 (groupid_r scn_user) scn_state) = Inr Map.empty"
    using scn_getPermission by (simp add: scn_user_def)
  have 1: "\<exists>a s'. byHeader scn_env 7777000000 (Single (tokenPrefix @ ''abc123'')) scn_state
             = (Inr a, s') \<and> userID a = 42 \<and> login a"
    using g byHeader_valid_token [of "''abc123''" scn_state 7777000000 scn_env scn_token "''42''"
        42 scn_user Map.empty]
    by (simp add: cache_get_def scn_state_def scn_env_def scn_token_def scn_intval_def
        scn_user_def)
  have g2: "fst (getPermission scn_env 8000001000 (groupID_u scn_iuser) ?s1) = Inr Map.empty"
    by (simp add: getPermission_def cache_get_def cache_set_def fetchPermission_def
      scn_env_def scn_state_def scn_parse_def scn_iuser_def)
  have 2: "\<exists>a s'. byHeader scn_env 8000001000 (Single (tokenPrefix @ ''abc123'')) ?s1
             = (Inr a, s') \<and> userID a = 42 \<and> login a"
    using g2 byHeader_valid_token [of "''abc123''" ?s1 8000001000 scn_env _ _ _ _ Map.empty
        scn_iuser]
    by (simp add: cache_get_def scn_state_def scn_iuser_def)
  from 1 2 show ?thesis
    by (simp add: tokenPrefix_def)
qed

subsection \<open>Resolving the same token twice\<close>

lemma cache_get_Some:
  "cache_get c now k = Some v \<Longrightarrow> \<exists>lapse. c k = Some (v, lapse) \<and> now < lapse"
  by (auto simp add: cache_get_def split: option.splits if_splits)

lemma cache_get_entry:
  "c k = Some (v, lapse) \<Longrightarrow> cache_get c now k \<noteq> None \<Longrightarrow> cache_get c now k = Some v"
  by (auto simp add: cache_get_def split: if_splits)

lemma fetchPermission_caches:
  "fetchPermission e g s = (r, s') \<Longrightarrow>
   tokenAuthCache s' = tokenAuthCache s \<and> permissionCache s' = permissionCache s"
  by (auto simp add: fetchPermission_def split: option.splits if_splits)

lemma fetchPermission_error:
  "fetchPermission e g s = (Inl err, s') \<Longrightarrow> \<exists>b. err = PhpParseError b"
  by (auto simp add: fetchPermission_def split: option.splits if_splits)

lemma getPermission_error:
  "getPermission e now g s = (Inl err, s') \<Longrightarrow> \<exists>b. err = PhpParseError b"
  by (auto simp add: getPermission_def split: option.splits if_splits sum.splits prod.splits
      dest: fetchPermission_error)

lemma getPermission_Inr:
  assumes "getPermission e now g s = (Inr p, s')"
  shows "tokenAuthCache s' = tokenAuthCache s \<and>
         (g = 0 \<or> (\<exists>lapse. permissionCache s' g = Some (p, lapse)))"
proof (cases "g = 0")
  case True
  with assms show ?thesis by (simp add: getPermission_def)
next
  case False
  show ?thesis
  proof (cases "cache_get (permissionCache s) now g")
    case (Some cached)
    with False assms have "s' = s" "p = cached"
      by (simp_all add: getPermission_def)
    with Some show ?thesis
      using cache_get_Some [of "permissionCache s" now g cached] by auto
  next
    case None
    obtain r t where f: "fetchPermission e g s = (r, t)"
      by (cases "fetchPermission e g s") simp
    with None False assms
    have "r = Inr p" and "s' = t\<lparr>permissionCache := cache_set (permissionCache t) now g p stdTTL\<rparr>"
      by (auto simp add: getPermission_def split: sum.splits)
    then show ?thesis
      using fetchPermission_caches [OF f] by (simp add: cache_set_def)
  qed
qed

lemma userToAuth_caches:
  assumes "userToAuth e now u s = (Inr a, s')"
  shows "tokenAuthCache s' = tokenAuthCache s \<and>
         userID a = id_u u \<and> login a \<and> regTime a = regTime_u u \<and> groupID a = groupID_u u \<and>
         (groupID_u u = 0 \<or> (\<exists>lapse. permissionCache s' (groupID_u u) = Some (permission a, lapse)))"
  using userToAuth_Inr [OF assms] getPermission_Inr [of e now "groupID_u u" s "permission a" s']
  by simp

lemma byToken_Inr:
  assumes "byToken e now t s = (Inr a, s')"
  shows "\<exists>u lapse. tokenAuthCache s' t = Some (u, lapse) \<and>
           userID a = id_u u \<and> login a \<and> regTime a = regTime_u u \<and> groupID a = groupID_u u \<and>
           (groupID_u u = 0 \<or> (\<exists>lp. permissionCache s' (groupID_u u) = Some (permission a, lp)))"
proof (cases "cache_get (tokenAuthCache s) now t")
  case (Some c)
  then obtain lapse where l: "tokenAuthCache s t = Some (c, lapse)"
    using cache_get_Some by fastforce
  from Some assms have "userToAuth e now c s = (Inr a, s')"
    by (simp add: byToken_cached)
  from userToAuth_caches [OF this] l show ?thesis
    by auto
next
  case None
  with assms obtain u where
    u: "userToAuth e now u
          (s\<lparr>tokenAuthCache := cache_set (tokenAuthCache s) now t u (60 * 60 * 24)\<rparr>) = (Inr a, s')"
    by (auto simp add: byToken_def split: option.splits if_splits sum.splits)
  from userToAuth_caches [OF u] show ?thesis
    by (auto simp add: cache_set_def)
qed

lemma byToken_group_zero_permission:
  assumes "byToken e now t s = (Inr a, s')"
  shows "groupID a = 0 \<Longrightarrow> permission a = Map.empty"
proof -
  assume z: "groupID a = 0"
  from assms obtain u s0 where "userToAuth e now u s0 = (Inr a, s')"
    by (auto simp add: byToken_def split: option.splits if_splits sum.splits)
  from userToAuth_Inr [OF this]
  have "getPermission e now (groupID_u u) s0 = (Inr (permission a), s')"
    and "groupID a = groupID_u u"
    by simp_all
  with z have "getPermission e now 0 s0 = (Inr (permission a), s')"
    by simp
  then show ?thesis
    by (simp add: getPermission_group_zero)
qed

lemma scn_stale_state:
  "snd (byUserID scn_env 7777000000 42 scn_state) =
     \<lparr>tokenAuthCache = Map.empty, userCache = [42 \<mapsto> (scn_iuser, 7780600000)],
      permissionCache = [10 \<mapsto> (Map.empty, 7777600000)], logger = []\<rparr>"
  by (simp add: byUserID_def userToAuth_def getPermission_def fetchPermission_def
      fetchUserX_def fetchUser_def cache_get_def cache_set_def stdTTL_def
      scn_env_def scn_state_def scn_user_def scn_iuser_def scn_parse_def)

lemma scn_edited_first:
  "byToken scn_env_edited 7777500000 ''abc123''
     \<lparr>tokenAuthCache = Map.empty, userCache = [42 \<mapsto> (scn_iuser, 7780600000)],
      permissionCache = [10 \<mapsto> (Map.empty, 7777600000)], logger = []\<rparr> =
   (Inr \<lparr>userID = 42, login = True, allowNsfw = True, permission = Map.empty,
         regTime = 1000, groupID = 10\<rparr>,
    \<lparr>tokenAuthCache = [''abc123'' \<mapsto> (scn_iuser, 7863900000)],
     userCache = [42 \<mapsto> (scn_iuser, 7780600000)],
     permissionCache = [10 \<mapsto> (Map.empty, 7777600000)], logger = []\<rparr>)"
  by (simp add: byToken_def userToAuth_def getPermission_def
      fetchUserX_def fetchUser_def cache_get_def cache_set_def flag_def toUnixInteger_def
      nsfwRestrictedUIDs_def scn_env_edited_def scn_env_def scn_token_def scn_user_def scn_iuser_def scn_intval_def)

lemma scn_edited_second:
  "\<exists>a s'. byToken scn_env_edited 7777700000 ''abc123''
     \<lparr>tokenAuthCache = [''abc123'' \<mapsto> (scn_iuser, 7863900000)],
      userCache = [42 \<mapsto> (scn_iuser, 7780600000)],
      permissionCache = [10 \<mapsto> (Map.empty, 7777600000)], logger = []\<rparr> = (Inr a, s') \<and>
     userID a = 42 \<and> permission a ''ban_post'' = Some True"
  by (simp add: byToken_def userToAuth_def getPermission_def fetchPermission_def
      cache_get_def cache_set_def scn_env_edited_def scn_env_def scn_iuser_def scn_parse_def)

text \<open>
  C9, as the claim states it, fails on the permission: the token cache keeps a user for 24
  hours, the permission cache keeps the record of a group for 10 minutes. Here the record
  of group 10 was cached at the instant 7777000000, before its blob was edited. A first
  resolution of \<^verbatim>\<open>abc123\<close> 500 s later writes the token cache and reads the cached record; a
  second, 700 s later, hits that token entry, finds the permission entry lapsed and reads the edited blob. The
  table does not change between the two resolutions, and the two permissions differ.
\<close>

theorem byToken_repeat_permission_counterexample:
  "cache_get (tokenAuthCache (snd (byUserID scn_env 7777000000 42 scn_state))) 7777500000 ''abc123'' = None \<and>
   cache_get
     (tokenAuthCache
        (snd (byToken scn_env_edited 7777500000 ''abc123'' (snd (byUserID scn_env 7777000000 42 scn_state)))))
     7777700000 ''abc123'' = Some scn_iuser \<and>
   map_sum id (\<lambda>a. permission a ''ban_post'')
     (fst (byToken scn_env_edited 7777500000 ''abc123'' (snd (byUserID scn_env 7777000000 42 scn_state))))
     = Inr None \<and>
   map_sum id (\<lambda>a. permission a ''ban_post'')
     (fst (byToken scn_env_edited 7777700000 ''abc123''
        (snd (byToken scn_env_edited 7777500000 ''abc123'' (snd (byUserID scn_env 7777000000 42 scn_state))))))
     = Inr (Some True)"
proof -
  obtain a s' where
    "byToken scn_env_edited 7777700000 ''abc123''
       \<lparr>tokenAuthCache = [''abc123'' \<mapsto> (scn_iuser, 7863900000)],
        userCache = [42 \<mapsto> (scn_iuser, 7780600000)],
        permissionCache = [10 \<mapsto> (Map.empty, 7777600000)], logger = []\<rparr> = (Inr a, s')"
    and "permission a ''ban_post'' = Some True"
    using scn_edited_second by blast
  then show ?thesis
    by (simp add: scn_stale_state scn_edited_first cache_get_def)
qed

text \<open>
  C9, amended. Let a first resolution of a token return a context, and let the token cache
  it leaves still hold a live entry for the token at the instant of a second resolution.
  Whatever the stores hold by then, the second resolution either returns a context with
  the same \<open>userID\<close>, \<open>login\<close>, \<open>regTime\<close> and \<open>groupID\<close>, or fails because a permission
  blob does not deserialize. If moreover the group id is 0 or the permission cache still
  holds a live entry for the group (its time to live is 10 minutes, not 24 hours), the
  second resolution returns, changes no cache, and the \<open>permission\<close> is the same as well.
\<close>

theorem byToken_repeat:
  assumes "byToken e1 t1 tok s0 = (Inr a1, s1)"
    and "cache_get (tokenAuthCache s1) t2 tok \<noteq> None"
  shows "((\<exists>a2 s2. byToken e2 t2 tok s1 = (Inr a2, s2) \<and> userID a2 = userID a1 \<and>
                  login a2 = login a1 \<and> regTime a2 = regTime a1 \<and> groupID a2 = groupID a1) \<or>
          (\<exists>b s2. byToken e2 t2 tok s1 = (Inl (PhpParseError b), s2))) \<and>
         (groupID a1 = 0 \<or> cache_get (permissionCache s1) t2 (groupID a1) \<noteq> None \<longrightarrow>
            (\<exists>a2. byToken e2 t2 tok s1 = (Inr a2, s1) \<and> userID a2 = userID a1 \<and>
                  login a2 = login a1 \<and> permission a2 = permission a1 \<and>
                  regTime a2 = regTime a1 \<and> groupID a2 = groupID a1))"
proof -
  from byToken_Inr [OF assms(1)] obtain u lapse where
    entry: "tokenAuthCache s1 tok = Some (u, lapse)" and
    fields: "userID a1 = id_u u" "login a1" "regTime a1 = regTime_u u" "groupID a1 = groupID_u u" and
    perm: "groupID_u u = 0 \<or> (\<exists>lp. permissionCache s1 (groupID_u u) = Some (permission a1, lp))"
    by blast
  have hit: "cache_get (tokenAuthCache s1) t2 tok = Some u"
    using entry assms(2) by (rule cache_get_entry)
  then have second: "byToken e2 t2 tok s1 = userToAuth e2 t2 u s1"
    by (rule byToken_cached)
  have part1: "(\<exists>a2 s2. byToken e2 t2 tok s1 = (Inr a2, s2) \<and> userID a2 = userID a1 \<and>
                  login a2 = login a1 \<and> regTime a2 = regTime a1 \<and> groupID a2 = groupID a1) \<or>
          (\<exists>b s2. byToken e2 t2 tok s1 = (Inl (PhpParseError b), s2))"
  proof (cases "getPermission e2 t2 (groupID_u u) s1")
    case (Pair r s2)
    show ?thesis
    proof (cases r)
      case (Inl err)
      with Pair obtain b where "err = PhpParseError b"
        using getPermission_error by blast
      with Inl Pair second show ?thesis
        by (simp add: userToAuth_failure)
    next
      case (Inr p)
      with Pair second fields show ?thesis
        by (simp add: userToAuth_of_getPermission)
    qed
  qed
  have part2: "\<exists>a2. byToken e2 t2 tok s1 = (Inr a2, s1) \<and> userID a2 = userID a1 \<and>
                  login a2 = login a1 \<and> permission a2 = permission a1 \<and>
                  regTime a2 = regTime a1 \<and> groupID a2 = groupID a1"
    if live: "groupID a1 = 0 \<or> cache_get (permissionCache s1) t2 (groupID a1) \<noteq> None"
  proof -
    have "getPermission e2 t2 (groupID_u u) s1 = (Inr (permission a1), s1)"
    proof (cases "groupID_u u = 0")
      case True
      moreover have "permission a1 = Map.empty"
        using byToken_group_zero_permission [OF assms(1)] True fields by simp
      ultimately show ?thesis
        by (simp add: getPermission_group_zero)
    next
      case False
      with perm obtain lp where "permissionCache s1 (groupID_u u) = Some (permission a1, lp)"
        by blast
      moreover have "cache_get (permissionCache s1) t2 (groupID_u u) \<noteq> None"
        using live False fields by simp
      ultimately have "cache_get (permissionCache s1) t2 (groupID_u u) = Some (permission a1)"
        by (rule cache_get_entry)
      with False show ?thesis
        by (simp add: getPermission_def)
    qed
    from userToAuth_of_getPermission [OF this] second fields show ?thesis
      by simp
  qed
  from part1 part2 show ?thesis
    by blast
qed

lemma scn_first:
  "byToken scn_env 7777000000 ''abc123'' scn_state =
   (Inr \<lparr>userID = 42, login = True, allowNsfw = True, permission = Map.empty,
         regTime = 1000, groupID = 10\<rparr>,
    \<lparr>tokenAuthCache = [''abc123'' \<mapsto> (scn_iuser, 7863400000)], userCache = Map.empty,
     permissionCache = [10 \<mapsto> (Map.empty, 7777600000)], logger = []\<rparr>)"
  by (simp add: byToken_def userToAuth_def getPermission_def fetchPermission_def
      fetchUserX_def fetchUser_def cache_get_def cache_set_def flag_def toUnixInteger_def
      nsfwRestrictedUIDs_def stdTTL_def
      scn_env_def scn_state_def scn_token_def scn_user_def scn_iuser_def scn_intval_def
      scn_parse_def)

theorem byToken_repeat_witness:
  "byToken scn_env 7777000000 ''abc123'' scn_state =
   (Inr \<lparr>userID = 42, login = True, allowNsfw = True, permission = Map.empty,
         regTime = 1000, groupID = 10\<rparr>,
    \<lparr>tokenAuthCache = [''abc123'' \<mapsto> (scn_iuser, 7863400000)], userCache = Map.empty,
     permissionCache = [10 \<mapsto> (Map.empty, 7777600000)], logger = []\<rparr>) \<and>
   (\<exists>a2. byToken scn_env_edited 7777001000 ''abc123''
           \<lparr>tokenAuthCache = [''abc123'' \<mapsto> (scn_iuser, 7863400000)], userCache = Map.empty,
            permissionCache = [10 \<mapsto> (Map.empty, 7777600000)], logger = []\<rparr> =
         (Inr a2,
          \<lparr>tokenAuthCache = [''abc123'' \<mapsto> (scn_iuser, 7863400000)], userCache = Map.empty,
           permissionCache = [10 \<mapsto> (Map.empty, 7777600000)], logger = []\<rparr>) \<and>
         userID a2 = 42 \<and> login a2 \<and> permission a2 = Map.empty \<and> regTime a2 = 1000 \<and>
         groupID a2 = 10)"
  using scn_first byToken_repeat [OF scn_first, of 7777001000 scn_env_edited]
  by (simp add: cache_get_def)

end
